theory Spec2Isabelle
  imports Main "HOL-Library.Word"
begin

unbundle bit_operations_syntax

section \<open>Shader-stage utilities of llpcUtil.cpp\<close>

text \<open>
  The enumerations \<open>ShaderStage\<close> and \<open>UnlinkedShaderStage\<close> are C++ enums with
  underlying type \<open>unsigned\<close>, and \<open>convertToShaderStage\<close> takes its execution model
  as an \<open>unsigned\<close>; all three are 32-bit words here, so that ordinals outside the
  enumerators (which a \<open>static_cast\<close> can produce) are inputs of the model too.
\<close>

type_synonym ShaderStage = "32 word"
type_synonym ExecutionModel = "32 word"
type_synonym UnlinkedShaderStage = "32 word"

subsection \<open>Enumerators\<close>

text \<open>
  Modelled from the spec: the enumerators of \<open>ShaderStage\<close>, whose declaration
  (vkgcDefs.h) is not among the sources. The spec lists the stages as Vertex, TessControl,
  TessEval, Geometry, Fragment, Compute, CopyShader, Invalid, says the mask of a stage is
  \<open>1 << ordinal\<close>, that Vertex..Compute are a contiguous range indexing the name table
  and that CopyShader's ordinal lies outside that range. The six-entry table of
  \<open>getShaderStageName\<close> fixes the ordinals 0..5 and \<open>ShaderStageCount = 6\<close>; CopyShader
  is the next ordinal and Invalid is the all-ones sentinel.
\<close>

definition ShaderStageVertex :: ShaderStage where "ShaderStageVertex = 0"
definition ShaderStageTessControl :: ShaderStage where "ShaderStageTessControl = 1"
definition ShaderStageTessEval :: ShaderStage where "ShaderStageTessEval = 2"
definition ShaderStageGeometry :: ShaderStage where "ShaderStageGeometry = 3"
definition ShaderStageFragment :: ShaderStage where "ShaderStageFragment = 4"
definition ShaderStageCompute :: ShaderStage where "ShaderStageCompute = 5"
definition ShaderStageCount :: ShaderStage where "ShaderStageCount = 6"
definition ShaderStageCopyShader :: ShaderStage where "ShaderStageCopyShader = 6"
definition ShaderStageInvalid :: ShaderStage where "ShaderStageInvalid = 0xFFFFFFFF"

text \<open>
  Modelled from the spec: the execution-model codes of namespace \<open>spv\<close> (spirv.hpp and
  spirvExt.h, not among the sources). Both conversions \<open>static_cast\<close> between a stage
  and its code, so the six codes with a binary-format counterpart are the ordinals of
  their stages; the spec gives CopyShader a distinguished code that no other stage maps
  to, which is 1024 in the external header.
\<close>

definition ExecutionModelVertex :: ExecutionModel where "ExecutionModelVertex = 0"
definition ExecutionModelTessellationControl :: ExecutionModel where
  "ExecutionModelTessellationControl = 1"
definition ExecutionModelTessellationEvaluation :: ExecutionModel where
  "ExecutionModelTessellationEvaluation = 2"
definition ExecutionModelGeometry :: ExecutionModel where "ExecutionModelGeometry = 3"
definition ExecutionModelFragment :: ExecutionModel where "ExecutionModelFragment = 4"
definition ExecutionModelGLCompute :: ExecutionModel where "ExecutionModelGLCompute = 5"
definition ExecutionModelCopyShader :: ExecutionModel where "ExecutionModelCopyShader = 1024"

text \<open>
  Modelled from the spec: the enumerators of \<open>Vkgc::UnlinkedShaderStage\<close> (vkgcDefs.h,
  not among the sources): the closed set VertexProcess, Fragment, Compute in this order,
  followed by the count.
\<close>

definition UnlinkedStageVertexProcess :: UnlinkedShaderStage where
  "UnlinkedStageVertexProcess = 0"
definition UnlinkedStageFragment :: UnlinkedShaderStage where "UnlinkedStageFragment = 1"
definition UnlinkedStageCompute :: UnlinkedShaderStage where "UnlinkedStageCompute = 2"
definition UnlinkedStageCount :: UnlinkedShaderStage where "UnlinkedStageCount = 3"

text \<open>The stages and the execution-model codes that the two conversions name in a case label.\<close>

definition definedStages :: "ShaderStage list" where
  "definedStages =
     [ShaderStageVertex, ShaderStageTessControl, ShaderStageTessEval, ShaderStageGeometry,
      ShaderStageFragment, ShaderStageCompute, ShaderStageCopyShader]"

definition definedExecModels :: "ExecutionModel list" where
  "definedExecModels =
     [ExecutionModelVertex, ExecutionModelTessellationControl,
      ExecutionModelTessellationEvaluation, ExecutionModelGeometry, ExecutionModelFragment,
      ExecutionModelGLCompute, ExecutionModelCopyShader]"

subsection \<open>Failures\<close>

text \<open>
  \<open>Unreachable\<close>: control reached \<open>llvm_unreachable\<close>, which does not return (it aborts
  with its message, or is undefined behaviour in an optimised build; the \<open>return\<close>
  written after it is never executed). \<open>AssertionFailed\<close>: an \<open>assert\<close> did not hold.
  \<open>OutOfBounds\<close>: a static table was subscripted past its last entry.
\<close>

datatype error = Unreachable | AssertionFailed | OutOfBounds

definition bind_result :: "error + 'a \<Rightarrow> ('a \<Rightarrow> error + 'b) \<Rightarrow> error + 'b" where
  "bind_result r f = (case r of Inl e \<Rightarrow> Inl e | Inr v \<Rightarrow> f v)"

definition tableRead :: "'a list \<Rightarrow> nat \<Rightarrow> error + 'a" where
  "tableRead tbl i = (if i < length tbl then Inr (tbl ! i) else Inl OutOfBounds)"

subsection \<open>getShaderStageName\<close>

definition ShaderStageNames :: "string list" where
  "ShaderStageNames =
     [''vertex'', ''tessellation control'', ''tessellation evaluation'', ''geometry'',
      ''fragment'', ''compute'']"

text \<open>
  The function with its table accesses recorded: the first component lists the indices
  at which \<open>ShaderStageNames\<close> is subscripted, the second is the returned name.
\<close>

definition getShaderStageName_traced :: "ShaderStage \<Rightarrow> nat list \<times> (error + string)" where
  "getShaderStageName_traced shaderStage =
     (if shaderStage = ShaderStageCopyShader then ([], Inr ''copy'')
      else if shaderStage < ShaderStageCount then
        ([unat shaderStage], tableRead ShaderStageNames (unat shaderStage))
      else ([], Inr ''bad''))"

definition getShaderStageName :: "ShaderStage \<Rightarrow> error + string" where
  "getShaderStageName shaderStage = snd (getShaderStageName_traced shaderStage)"

subsection \<open>convertToShaderStage and convertToExecModel\<close>

definition convertToShaderStage :: "ExecutionModel \<Rightarrow> error + ShaderStage" where
  "convertToShaderStage execModel =
     (if execModel = ExecutionModelVertex \<or> execModel = ExecutionModelTessellationControl
         \<or> execModel = ExecutionModelTessellationEvaluation
         \<or> execModel = ExecutionModelGeometry \<or> execModel = ExecutionModelFragment
         \<or> execModel = ExecutionModelGLCompute then Inr execModel
      else if execModel = ExecutionModelCopyShader then Inr ShaderStageCopyShader
      else Inl Unreachable)"

definition convertToExecModel :: "ShaderStage \<Rightarrow> error + ExecutionModel" where
  "convertToExecModel shaderStage =
     (if shaderStage = ShaderStageVertex \<or> shaderStage = ShaderStageTessControl
         \<or> shaderStage = ShaderStageTessEval \<or> shaderStage = ShaderStageGeometry
         \<or> shaderStage = ShaderStageFragment \<or> shaderStage = ShaderStageCompute
      then Inr shaderStage
      else if shaderStage = ShaderStageCopyShader then Inr ExecutionModelCopyShader
      else Inl Unreachable)"

subsection \<open>shaderStageToMask\<close>

text \<open>
  The \<open>assert\<close> is a checked precondition, as in a build with assertions enabled.
  Past it the shift count is at most 6, so the \<open>int\<close> shift \<open>1 << stage\<close> neither
  overflows nor changes under the conversion to \<open>unsigned\<close>.
\<close>

definition shaderStageToMask :: "ShaderStage \<Rightarrow> error + 32 word" where
  "shaderStageToMask stage =
     (if stage < ShaderStageCount \<or> stage = ShaderStageCopyShader
      then Inr (push_bit (unat stage) 1)
      else Inl AssertionFailed)"

subsection \<open>Unlinked shader stages\<close>

record PipelineShaderInfo =
  entryStage :: ShaderStage

text \<open>
  Modelled from the spec: \<open>doesShaderStageExist\<close>, an inline helper of llpcUtil.h, which
  is not among the sources. The spec says that \<open>hasDataForUnlinkedShaderType\<close> for the
  vertex-processing category is true iff at least one of the shader infos declares stage
  Vertex, and false for an empty list; the helper is therefore the search for an element
  declaring the given stage. The array holds pointers, \<open>None\<close> being the null pointer.
\<close>

fun doesShaderStageExist :: "PipelineShaderInfo option list \<Rightarrow> ShaderStage \<Rightarrow> bool" where
  "doesShaderStageExist [] stage = False"
| "doesShaderStageExist (None # shaderInfo) stage = doesShaderStageExist shaderInfo stage"
| "doesShaderStageExist (Some info # shaderInfo) stage =
     (entryStage info = stage \<or> doesShaderStageExist shaderInfo stage)"

definition hasDataForUnlinkedShaderType ::
  "UnlinkedShaderStage \<Rightarrow> PipelineShaderInfo option list \<Rightarrow> bool" where
  "hasDataForUnlinkedShaderType type shaderInfo =
     (if type = UnlinkedStageVertexProcess then doesShaderStageExist shaderInfo ShaderStageVertex
      else if type = UnlinkedStageFragment then doesShaderStageExist shaderInfo ShaderStageFragment
      else if type = UnlinkedStageCompute then doesShaderStageExist shaderInfo ShaderStageCompute
      else False)"

definition getShaderStageMaskForType :: "UnlinkedShaderStage \<Rightarrow> error + 32 word" where
  "getShaderStageMaskForType type =
     (if type = UnlinkedStageVertexProcess then
        bind_result (shaderStageToMask ShaderStageVertex) (\<lambda>v.
        bind_result (shaderStageToMask ShaderStageGeometry) (\<lambda>g.
        bind_result (shaderStageToMask ShaderStageTessControl) (\<lambda>tc.
        bind_result (shaderStageToMask ShaderStageTessEval) (\<lambda>te.
          Inr (v OR g OR tc OR te)))))
      else if type = UnlinkedStageFragment then shaderStageToMask ShaderStageFragment
      else if type = UnlinkedStageCompute then shaderStageToMask ShaderStageCompute
      else Inr 0)"

definition names :: "string list" where
  "names = [''vertex'', ''fragment'', ''compute'', ''unknown'']"

definition getUnlinkedShaderStageName :: "UnlinkedShaderStage \<Rightarrow> error + string" where
  "getUnlinkedShaderStageName type = tableRead names (unat type)"

section \<open>Auxiliary facts\<close>

lemmas ShaderStage_defs =
  ShaderStageVertex_def ShaderStageTessControl_def ShaderStageTessEval_def
  ShaderStageGeometry_def ShaderStageFragment_def ShaderStageCompute_def
  ShaderStageCount_def ShaderStageCopyShader_def ShaderStageInvalid_def

lemmas ExecutionModel_defs =
  ExecutionModelVertex_def ExecutionModelTessellationControl_def
  ExecutionModelTessellationEvaluation_def ExecutionModelGeometry_def
  ExecutionModelFragment_def ExecutionModelGLCompute_def ExecutionModelCopyShader_def

lemmas UnlinkedShaderStage_defs =
  UnlinkedStageVertexProcess_def UnlinkedStageFragment_def UnlinkedStageCompute_def
  UnlinkedStageCount_def

lemma unat_less_4_cases:
  "unat (w :: 32 word) < 4 \<longleftrightarrow> w = 0 \<or> w = 1 \<or> w = 2 \<or> w = 3"
  unfolding word_unat_eq_iff by simp arith

lemma length_names: "length names = 4"
  by (simp add: names_def)

lemma stage_below_count_in_table:
  "shaderStage < ShaderStageCount \<Longrightarrow> unat shaderStage < length ShaderStageNames"
  by (simp add: ShaderStageCount_def ShaderStageNames_def word_less_nat_alt)

lemma doesShaderStageExist_iff:
  "doesShaderStageExist shaderInfo stage =
     (\<exists>info. Some info \<in> set shaderInfo \<and> entryStage info = stage)"
proof (induction shaderInfo)
  case Nil
  show ?case by simp
next
  case (Cons p shaderInfo)
  then show ?case by (cases p) auto
qed

lemma shaderStageToMask_defined:
  "s \<in> set definedStages \<Longrightarrow> shaderStageToMask s = Inr (2 ^ unat s) \<and> unat s < 7"
  by (auto simp: definedStages_def shaderStageToMask_def ShaderStage_defs)

lemma getUnlinkedShaderStageName_OutOfBounds:
  "(getUnlinkedShaderStageName type = Inl OutOfBounds) =
     (type \<notin> {UnlinkedStageVertexProcess, UnlinkedStageFragment, UnlinkedStageCompute,
               UnlinkedStageCount})"
  unfolding getUnlinkedShaderStageName_def tableRead_def length_names unat_less_4_cases
  by (simp add: UnlinkedShaderStage_defs)

section \<open>Execution model and shader stage\<close>

text \<open>
  C1. Every execution-model code with a defined shader stage (Vertex,
  TessellationControl, TessellationEvaluation, Geometry, Fragment, GLCompute, CopyShader)
  is converted to a stage by \<open>convertToShaderStage\<close>, and \<open>convertToExecModel\<close> takes that
  stage back to the original code.
\<close>

theorem execModel_roundtrip:
  assumes "x \<in> set definedExecModels"
  shows "\<exists>s. convertToShaderStage x = Inr s \<and> convertToExecModel s = Inr x"
  using assms
  by (auto simp: definedExecModels_def convertToShaderStage_def convertToExecModel_def
      ExecutionModel_defs ShaderStage_defs)

theorem execModel_roundtrip_witness:
  "ExecutionModelCopyShader \<in> set definedExecModels \<and>
   (\<exists>s. convertToShaderStage ExecutionModelCopyShader = Inr s \<and>
        convertToExecModel s = Inr ExecutionModelCopyShader)"
proof -
  have h: "ExecutionModelCopyShader \<in> set definedExecModels"
    by (simp add: definedExecModels_def)
  from execModel_roundtrip [OF h] h show ?thesis by simp
qed

text \<open>
  C2. Every stage other than Invalid (Vertex, TessControl, TessEval, Geometry, Fragment,
  Compute, CopyShader) is converted to an execution model by \<open>convertToExecModel\<close>, and
  \<open>convertToShaderStage\<close> takes that code back to the original stage. CopyShader maps to
  \<open>ExecutionModelCopyShader\<close>, and no other stage value maps to that code.
\<close>

theorem shaderStage_roundtrip:
  assumes "s \<in> set definedStages"
  shows "(\<exists>x. convertToExecModel s = Inr x \<and> convertToShaderStage x = Inr s) \<and>
         convertToExecModel ShaderStageCopyShader = Inr ExecutionModelCopyShader \<and>
         (\<forall>t. convertToExecModel t = Inr ExecutionModelCopyShader \<longrightarrow>
              t = ShaderStageCopyShader)"
  using assms
  by (auto simp: definedStages_def convertToShaderStage_def convertToExecModel_def
      ExecutionModel_defs ShaderStage_defs split: if_splits)

theorem shaderStage_roundtrip_witness:
  "ShaderStageGeometry \<in> set definedStages \<and>
   (\<exists>x. convertToExecModel ShaderStageGeometry = Inr x \<and>
        convertToShaderStage x = Inr ShaderStageGeometry) \<and>
   convertToExecModel ShaderStageCopyShader = Inr ExecutionModelCopyShader \<and>
   convertToExecModel ShaderStageFragment \<noteq> Inr ExecutionModelCopyShader"
proof -
  have h: "ShaderStageGeometry \<in> set definedStages"
    by (simp add: definedStages_def)
  have "ShaderStageFragment \<noteq> ShaderStageCopyShader"
    by (simp add: ShaderStage_defs)
  with shaderStage_roundtrip [OF h] h show ?thesis by blast
qed

text \<open>
  The conversions are not total. The execution-model code 6 (a kernel in the external
  numbering) has no case label in \<open>convertToShaderStage\<close>, and \<open>ShaderStageInvalid\<close> falls
  into the default label of \<open>convertToExecModel\<close>: both calls reach
  \<open>llvm_unreachable\<close> instead of returning a result.
\<close>

theorem conversions_not_total:
  "convertToShaderStage 6 = Inl Unreachable \<and>
   convertToExecModel ShaderStageInvalid = Inl Unreachable"
  by (simp add: convertToShaderStage_def convertToExecModel_def
      ExecutionModel_defs ShaderStage_defs)

text \<open>
  C3, as amended. \<open>getShaderStageName\<close> returns a name for every input value. The two
  conversions return a result exactly on the values they name in a case label:
  \<open>convertToExecModel\<close> on the seven stages Vertex..CopyShader and
  \<open>convertToShaderStage\<close> on the seven execution-model codes Vertex..CopyShader; on
  every other input (an execution-model code with no defined stage, a stage value such
  as \<open>ShaderStageInvalid\<close>) they reach \<open>llvm_unreachable\<close>.
\<close>

theorem mapping_functions_defined:
  "(\<exists>name. getShaderStageName shaderStage = Inr name) \<and>
   (convertToExecModel shaderStage =
      (if shaderStage \<in> set definedStages then
         Inr (if shaderStage = ShaderStageCopyShader then ExecutionModelCopyShader
              else shaderStage)
       else Inl Unreachable)) \<and>
   (convertToShaderStage execModel =
      (if execModel \<in> set definedExecModels then
         Inr (if execModel = ExecutionModelCopyShader then ShaderStageCopyShader
              else execModel)
       else Inl Unreachable))"
proof (intro conjI)
  show "\<exists>name. getShaderStageName shaderStage = Inr name"
    using stage_below_count_in_table [of shaderStage]
    by (simp add: getShaderStageName_def getShaderStageName_traced_def tableRead_def)
  show "convertToExecModel shaderStage =
      (if shaderStage \<in> set definedStages then
         Inr (if shaderStage = ShaderStageCopyShader then ExecutionModelCopyShader
              else shaderStage)
       else Inl Unreachable)"
    by (simp add: definedStages_def convertToExecModel_def ShaderStage_defs)
  show "convertToShaderStage execModel =
      (if execModel \<in> set definedExecModels then
         Inr (if execModel = ExecutionModelCopyShader then ShaderStageCopyShader
              else execModel)
       else Inl Unreachable)"
    by (simp add: definedExecModels_def convertToShaderStage_def ExecutionModel_defs)
qed

theorem mapping_functions_defined_witness:
  "getShaderStageName ShaderStageInvalid = Inr ''bad'' \<and>
   ShaderStageTessEval \<in> set definedStages \<and>
   convertToExecModel ShaderStageTessEval = Inr ExecutionModelTessellationEvaluation \<and>
   7 \<notin> set definedExecModels \<and>
   convertToShaderStage 7 = Inl Unreachable"
  using mapping_functions_defined [of ShaderStageTessEval 7]
    mapping_functions_defined [of ShaderStageInvalid 7]
  by (simp add: definedStages_def definedExecModels_def ShaderStage_defs ExecutionModel_defs
      getShaderStageName_def getShaderStageName_traced_def)

section \<open>Stage masks\<close>

text \<open>
  C4. For each of the seven stages Vertex..CopyShader \<open>shaderStageToMask\<close> returns the
  mask \<open>1 << ordinal\<close>, whose only set bit is the bit of the ordinal. Over these stages
  it is injective, and the masks of two distinct stages have no bit in common; in
  particular the mask of CopyShader shares no bit with a mask of Vertex..Compute.
\<close>

theorem shaderStageToMask_single_bit_inj:
  assumes "s \<in> set definedStages" and "t \<in> set definedStages"
  shows "\<exists>ms mt. shaderStageToMask s = Inr ms \<and> shaderStageToMask t = Inr mt \<and>
           ms = push_bit (unat s) 1 \<and> (\<forall>n. bit ms n \<longleftrightarrow> n = unat s) \<and>
           (ms = mt \<longrightarrow> s = t) \<and> (s \<noteq> t \<longrightarrow> ms AND mt = 0)"
proof -
  from assms have s: "shaderStageToMask s = Inr (2 ^ unat s)" "unat s < 7"
    and t: "shaderStageToMask t = Inr (2 ^ unat t)" "unat t < 7"
    by (simp_all add: shaderStageToMask_defined)
  have bits: "bit ((2 :: 32 word) ^ unat s) n \<longleftrightarrow> n = unat s" for n
    using s(2) by (auto simp: bit_exp_iff)
  have bitt: "bit ((2 :: 32 word) ^ unat t) n \<longleftrightarrow> n = unat t" for n
    using t(2) by (auto simp: bit_exp_iff)
  have inj: "s = t" if "(2 :: 32 word) ^ unat s = 2 ^ unat t"
  proof -
    from that bits [of "unat s"] bitt [of "unat s"] have "unat s = unat t" by simp
    then show ?thesis by (simp add: word_unat_eq_iff)
  qed
  have disj: "(2 :: 32 word) ^ unat s AND 2 ^ unat t = 0" if "s \<noteq> t"
  proof (rule bit_eqI)
    fix n
    from that have "unat s \<noteq> unat t" by (simp add: word_unat_eq_iff)
    then show "bit ((2 :: 32 word) ^ unat s AND 2 ^ unat t) n = bit (0 :: 32 word) n"
      using bits [of n] bitt [of n] by (auto simp: bit_and_iff)
  qed
  show ?thesis
    using s(1) t(1) bits inj disj by (simp add: push_bit_eq_mult)
qed

theorem shaderStageToMask_single_bit_inj_witness:
  "ShaderStageCopyShader \<in> set definedStages \<and> ShaderStageFragment \<in> set definedStages \<and>
   ShaderStageCopyShader \<noteq> ShaderStageFragment \<and>
   (\<exists>ms mt. shaderStageToMask ShaderStageCopyShader = Inr ms \<and>
      shaderStageToMask ShaderStageFragment = Inr mt \<and> ms \<noteq> mt \<and> ms AND mt = 0)"
proof -
  have h: "ShaderStageCopyShader \<in> set definedStages" "ShaderStageFragment \<in> set definedStages"
    by (simp_all add: definedStages_def)
  have d: "ShaderStageCopyShader \<noteq> ShaderStageFragment"
    by (simp add: ShaderStage_defs)
  from shaderStageToMask_single_bit_inj [OF h] h d show ?thesis by blast
qed

section \<open>Stage names\<close>

text \<open>
  C5. \<open>getShaderStageName\<close> returns "fragment" for \<open>ShaderStageFragment\<close>, "copy" for
  \<open>ShaderStageCopyShader\<close>, and "bad" for every ordinal that is neither CopyShader nor
  below \<open>ShaderStageCount\<close>.
\<close>

theorem getShaderStageName_values:
  "getShaderStageName ShaderStageFragment = Inr ''fragment'' \<and>
   getShaderStageName ShaderStageCopyShader = Inr ''copy'' \<and>
   (shaderStage \<noteq> ShaderStageCopyShader \<and> \<not> shaderStage < ShaderStageCount \<longrightarrow>
      getShaderStageName shaderStage = Inr ''bad'')"
  by (simp add: getShaderStageName_def getShaderStageName_traced_def tableRead_def
      ShaderStageNames_def ShaderStage_defs)

theorem getShaderStageName_values_witness:
  "ShaderStageInvalid \<noteq> ShaderStageCopyShader \<and> \<not> ShaderStageInvalid < ShaderStageCount \<and>
   getShaderStageName ShaderStageInvalid = Inr ''bad''"
proof -
  have h: "ShaderStageInvalid \<noteq> ShaderStageCopyShader \<and> \<not> ShaderStageInvalid < ShaderStageCount"
    by (simp add: ShaderStage_defs)
  with getShaderStageName_values [of ShaderStageInvalid] show ?thesis by blast
qed

text \<open>
  C8. \<open>getShaderStageName\<close> subscripts its name table only when the stage is not
  CopyShader and its ordinal is strictly below \<open>ShaderStageCount\<close>; the index is then
  the ordinal and lies inside the table. For CopyShader and for every ordinal that is not
  below \<open>ShaderStageCount\<close> the table is not read at all, so no input causes an
  out-of-bounds access.
\<close>

theorem getShaderStageName_table_access:
  "(\<forall>i \<in> set (fst (getShaderStageName_traced shaderStage)).
      shaderStage \<noteq> ShaderStageCopyShader \<and> shaderStage < ShaderStageCount \<and>
      i = unat shaderStage \<and> i < length ShaderStageNames) \<and>
   (shaderStage = ShaderStageCopyShader \<or> \<not> shaderStage < ShaderStageCount \<longrightarrow>
      fst (getShaderStageName_traced shaderStage) = []) \<and>
   getShaderStageName shaderStage \<noteq> Inl OutOfBounds"
  using stage_below_count_in_table [of shaderStage]
  by (simp add: getShaderStageName_def getShaderStageName_traced_def tableRead_def)

theorem getShaderStageName_table_access_witness:
  "fst (getShaderStageName_traced ShaderStageFragment) = [4] \<and>
   ShaderStageFragment < ShaderStageCount \<and> 4 < length ShaderStageNames \<and>
   \<not> ShaderStageInvalid < ShaderStageCount \<and>
   fst (getShaderStageName_traced ShaderStageInvalid) = [] \<and>
   getShaderStageName ShaderStageFragment \<noteq> Inl OutOfBounds"
  using getShaderStageName_table_access [of ShaderStageFragment]
    getShaderStageName_table_access [of ShaderStageInvalid]
  by (simp add: getShaderStageName_traced_def ShaderStage_defs)

section \<open>Unlinked shader stages\<close>

text \<open>
  C6. \<open>hasDataForUnlinkedShaderType\<close> for the vertex-processing category is true if and
  only if at least one element of the shader infos declares stage Vertex; for an empty
  list it is false.
\<close>

theorem hasData_VertexProcess_iff:
  "hasDataForUnlinkedShaderType UnlinkedStageVertexProcess shaderInfo =
     (\<exists>info. Some info \<in> set shaderInfo \<and> entryStage info = ShaderStageVertex) \<and>
   \<not> hasDataForUnlinkedShaderType UnlinkedStageVertexProcess []"
  by (simp add: hasDataForUnlinkedShaderType_def doesShaderStageExist_iff)

theorem hasData_VertexProcess_iff_witness:
  "hasDataForUnlinkedShaderType UnlinkedStageVertexProcess
     [None, Some \<lparr>entryStage = ShaderStageFragment\<rparr>, Some \<lparr>entryStage = ShaderStageVertex\<rparr>] \<and>
   \<not> hasDataForUnlinkedShaderType UnlinkedStageVertexProcess
     [Some \<lparr>entryStage = ShaderStageFragment\<rparr>]"
  using hasData_VertexProcess_iff
    [of "[None, Some \<lparr>entryStage = ShaderStageFragment\<rparr>, Some \<lparr>entryStage = ShaderStageVertex\<rparr>]"]
    hasData_VertexProcess_iff [of "[Some \<lparr>entryStage = ShaderStageFragment\<rparr>]"]
  by (auto simp: ShaderStage_defs)

text \<open>
  C7. \<open>getShaderStageMaskForType\<close> returns, for the vertex-processing category, the union
  of the masks of Vertex, TessControl, TessEval and Geometry; for the fragment category
  the mask of Fragment; for the compute category the mask of Compute.
\<close>

theorem getShaderStageMaskForType_union:
  "(\<exists>v tc te g. shaderStageToMask ShaderStageVertex = Inr v \<and>
      shaderStageToMask ShaderStageTessControl = Inr tc \<and>
      shaderStageToMask ShaderStageTessEval = Inr te \<and>
      shaderStageToMask ShaderStageGeometry = Inr g \<and>
      getShaderStageMaskForType UnlinkedStageVertexProcess = Inr (v OR tc OR te OR g)) \<and>
   (\<exists>f. shaderStageToMask ShaderStageFragment = Inr f \<and>
      getShaderStageMaskForType UnlinkedStageFragment = Inr f) \<and>
   (\<exists>c. shaderStageToMask ShaderStageCompute = Inr c \<and>
      getShaderStageMaskForType UnlinkedStageCompute = Inr c)"
  by (simp add: getShaderStageMaskForType_def shaderStageToMask_def bind_result_def
      ShaderStage_defs UnlinkedShaderStage_defs)

text \<open>
  C9. For every unlinked-stage value other than VertexProcess, Fragment and Compute,
  \<open>hasDataForUnlinkedShaderType\<close> is false for every list of shader infos and
  \<open>getShaderStageMaskForType\<close> returns the empty mask 0.
\<close>

theorem unlinked_default_empty:
  assumes "type \<noteq> UnlinkedStageVertexProcess" and "type \<noteq> UnlinkedStageFragment"
    and "type \<noteq> UnlinkedStageCompute"
  shows "\<not> hasDataForUnlinkedShaderType type shaderInfo \<and>
         getShaderStageMaskForType type = Inr 0"
  using assms by (simp add: hasDataForUnlinkedShaderType_def getShaderStageMaskForType_def)

theorem unlinked_default_empty_witness:
  "UnlinkedStageCount \<noteq> UnlinkedStageVertexProcess \<and>
   UnlinkedStageCount \<noteq> UnlinkedStageFragment \<and>
   UnlinkedStageCount \<noteq> UnlinkedStageCompute \<and>
   \<not> hasDataForUnlinkedShaderType UnlinkedStageCount [Some \<lparr>entryStage = ShaderStageVertex\<rparr>] \<and>
   getShaderStageMaskForType UnlinkedStageCount = Inr 0"
proof -
  have h: "UnlinkedStageCount \<noteq> UnlinkedStageVertexProcess"
    "UnlinkedStageCount \<noteq> UnlinkedStageFragment"
    "UnlinkedStageCount \<noteq> UnlinkedStageCompute"
    by (simp_all add: UnlinkedShaderStage_defs)
  from unlinked_default_empty [OF h, of "[Some \<lparr>entryStage = ShaderStageVertex\<rparr>]"] h
  show ?thesis by blast
qed

text \<open>
  C10. \<open>getUnlinkedShaderStageName\<close> subscripts a table of four names by its argument:
  it returns "vertex" for VertexProcess, "fragment" for Fragment, "compute" for Compute
  and "unknown" for the count that follows Compute. It has no guard: every other argument
  reads past the table, and only these four do not. The name of the vertex-processing
  category is the stage name of Vertex.
\<close>

theorem getUnlinkedShaderStageName_table:
  "getUnlinkedShaderStageName UnlinkedStageVertexProcess = Inr ''vertex'' \<and>
   getUnlinkedShaderStageName UnlinkedStageFragment = Inr ''fragment'' \<and>
   getUnlinkedShaderStageName UnlinkedStageCompute = Inr ''compute'' \<and>
   getUnlinkedShaderStageName UnlinkedStageCount = Inr ''unknown'' \<and>
   (getUnlinkedShaderStageName type = Inl OutOfBounds) =
     (type \<notin> {UnlinkedStageVertexProcess, UnlinkedStageFragment, UnlinkedStageCompute,
               UnlinkedStageCount}) \<and>
   getUnlinkedShaderStageName UnlinkedStageVertexProcess = getShaderStageName ShaderStageVertex"
proof -
  have "getUnlinkedShaderStageName UnlinkedStageVertexProcess = Inr ''vertex''"
    "getUnlinkedShaderStageName UnlinkedStageFragment = Inr ''fragment''"
    "getUnlinkedShaderStageName UnlinkedStageCompute = Inr ''compute''"
    "getUnlinkedShaderStageName UnlinkedStageCount = Inr ''unknown''"
    by (simp_all add: getUnlinkedShaderStageName_def tableRead_def names_def
        UnlinkedShaderStage_defs)
  moreover have "getShaderStageName ShaderStageVertex = Inr ''vertex''"
    by (simp add: getShaderStageName_def getShaderStageName_traced_def tableRead_def
        ShaderStageNames_def ShaderStage_defs)
  ultimately show ?thesis
    using getUnlinkedShaderStageName_OutOfBounds [of type] by simp
qed

theorem getUnlinkedShaderStageName_table_witness:
  "4 \<notin> {UnlinkedStageVertexProcess, UnlinkedStageFragment, UnlinkedStageCompute,
         UnlinkedStageCount} \<and>
   getUnlinkedShaderStageName 4 = Inl OutOfBounds"
proof -
  have h: "4 \<notin> {UnlinkedStageVertexProcess, UnlinkedStageFragment, UnlinkedStageCompute,
                 UnlinkedStageCount}"
    by (simp add: UnlinkedShaderStage_defs)
  with getUnlinkedShaderStageName_table [of 4] show ?thesis by blast
qed

end
